theory Spec2Isabelle
  imports Main "HOL-Library.Char_ord" "HOL-Library.List_Lexorder" "HOL-Library.AList"
    "HOL-Library.Multiset"
begin

section \<open>Python values as the bot sees them\<close>

text \<open>
  Everything the bot handles comes out of \<^verbatim>\<open>json.loads\<close> or \<^verbatim>\<open>r.json()\<close>: \<^verbatim>\<open>None\<close>,
  booleans, integers, strings, lists and dicts with string keys. A dict is an association
  list in insertion order whose keys are distinct, looked up with \<open>map_of\<close>. A Python
  \<^verbatim>\<open>str\<close> is held as its UTF-8 bytes, which keeps the code-point order of Python's string
  comparison. JSON numbers with a fraction or an exponent (Python floats) and the
  constants \<^verbatim>\<open>NaN\<close> and \<^verbatim>\<open>Infinity\<close> are not part of the model. Of the values left
  out only \<^verbatim>\<open>NaN\<close> is truthy and not equal to itself; a theorem that needs a value equal to
  itself assumes it.
\<close>

datatype json =
    JNull
  | JBool bool
  | JInt int
  | JStr string
  | JList "json list"
  | JObj "(string \<times> json) list"

text \<open>The exceptions that can travel through the program.\<close>

datatype exn = AttributeError | TypeError | ValueError | RequestException | OSError

definition bind_exn :: "exn + 'a \<Rightarrow> ('a \<Rightarrow> exn + 'b) \<Rightarrow> exn + 'b" where
  "bind_exn m f = (case m of Inl e \<Rightarrow> Inl e | Inr v \<Rightarrow> f v)"

fun map_exn :: "('a \<Rightarrow> exn + 'b) \<Rightarrow> 'a list \<Rightarrow> exn + 'b list" where
  "map_exn f [] = Inr []"
| "map_exn f (x # xs) =
     (case f x of
        Inl e \<Rightarrow> Inl e
      | Inr y \<Rightarrow> (case map_exn f xs of Inl e \<Rightarrow> Inl e | Inr ys \<Rightarrow> Inr (y # ys)))"

subsection \<open>Truth value, \<^verbatim>\<open>or\<close>, \<^verbatim>\<open>==\<close> and \<^verbatim>\<open><\<close>\<close>

fun truthy :: "json \<Rightarrow> bool" where
  "truthy JNull = False"
| "truthy (JBool b) = b"
| "truthy (JInt n) = (n \<noteq> 0)"
| "truthy (JStr s) = (s \<noteq> [])"
| "truthy (JList xs) = (xs \<noteq> [])"
| "truthy (JObj kv) = (kv \<noteq> [])"

definition py_or :: "json \<Rightarrow> json \<Rightarrow> json" where
  "py_or a b = (if truthy a then a else b)"

text \<open>
  Python's \<^verbatim>\<open>==\<close>: \<^verbatim>\<open>bool\<close> is a subclass of \<^verbatim>\<open>int\<close> (\<^verbatim>\<open>True == 1\<close>), lists are equal
  elementwise, dicts are equal when they have the same keys with equal values, whatever
  the insertion order.
\<close>

function py_eq :: "json \<Rightarrow> json \<Rightarrow> bool" where
  "py_eq JNull y = (y = JNull)"
| "py_eq (JBool a) y =
     (case y of JBool b \<Rightarrow> a = b | JInt n \<Rightarrow> of_bool a = n | _ \<Rightarrow> False)"
| "py_eq (JInt m) y =
     (case y of JBool b \<Rightarrow> m = of_bool b | JInt n \<Rightarrow> m = n | _ \<Rightarrow> False)"
| "py_eq (JStr s) y = (y = JStr s)"
| "py_eq (JList []) y = (y = JList [])"
| "py_eq (JList (x # xs)) y =
     (case y of JList (z # zs) \<Rightarrow> py_eq x z \<and> py_eq (JList xs) (JList zs) | _ \<Rightarrow> False)"
| "py_eq (JObj a) y =
     (case y of
        JObj b \<Rightarrow>
          list_all
            (\<lambda>k. case map_of a k of
                   None \<Rightarrow> False
                 | Some v \<Rightarrow> (case map_of b k of None \<Rightarrow> False | Some w \<Rightarrow> py_eq v w))
            (map fst a @ map fst b)
      | _ \<Rightarrow> False)"
  by pat_completeness auto
termination
proof -
  have smaller: "size v < Suc (size_list (size_prod (\<lambda>_. 0) size) a)"
    if "map_of a k = Some v" for a :: "(string \<times> json) list" and k v
    using that by (induction a) (auto split: if_splits)
  show ?thesis
    by (relation "measure (\<lambda>(x, y). size x)") (auto dest: smaller)
qed

text \<open>
  Python's \<^verbatim>\<open><\<close>: numbers with numbers, strings with strings by code point, lists with
  lists at the first pair of unequal elements; every other pairing (\<^verbatim>\<open>None\<close>, dicts,
  a string with a number) raises \<^verbatim>\<open>TypeError\<close>.
\<close>

fun py_lt :: "json \<Rightarrow> json \<Rightarrow> exn + bool" where
  "py_lt (JBool a) (JBool b) = Inr ((of_bool a :: int) < of_bool b)"
| "py_lt (JBool a) (JInt n) = Inr (of_bool a < n)"
| "py_lt (JInt m) (JBool b) = Inr (m < of_bool b)"
| "py_lt (JInt m) (JInt n) = Inr (m < n)"
| "py_lt (JStr s) (JStr t) = Inr (s < t)"
| "py_lt (JList []) (JList []) = Inr False"
| "py_lt (JList []) (JList (y # ys)) = Inr True"
| "py_lt (JList (x # xs)) (JList []) = Inr False"
| "py_lt (JList (x # xs)) (JList (y # ys)) =
     (if py_eq x y then py_lt (JList xs) (JList ys) else py_lt x y)"
| "py_lt _ _ = Inl TypeError"

subsection \<open>Dicts, iteration, slices\<close>

text \<open>\<^verbatim>\<open>d.get(k)\<close>: \<^verbatim>\<open>None\<close> for a missing key; only a dict has the method.\<close>

fun dict_get :: "json \<Rightarrow> string \<Rightarrow> exn + json" where
  "dict_get (JObj kv) k = Inr (case map_of kv k of None \<Rightarrow> JNull | Some v \<Rightarrow> v)"
| "dict_get _ k = Inl AttributeError"

text \<open>\<^verbatim>\<open>d[k] = v\<close>: an existing key keeps its place, a new one goes last.\<close>

fun dict_set :: "json \<Rightarrow> string \<Rightarrow> json \<Rightarrow> exn + json" where
  "dict_set (JObj kv) k v = Inr (JObj (AList.update k v kv))"
| "dict_set _ k v = Inl TypeError"

definition is_cont :: "char \<Rightarrow> bool" where
  "is_cont c = (128 \<le> (of_char c :: nat) \<and> (of_char c :: nat) < 192)"

text \<open>The code points of a string, each as its own string (UTF-8 continuation bytes
  stay with their lead byte).\<close>

function codepoints :: "string \<Rightarrow> string list" where
  "codepoints [] = []"
| "codepoints (c # cs) = (c # takeWhile is_cont cs) # codepoints (dropWhile is_cont cs)"
  by pat_completeness auto
termination
  by (relation "measure length") (auto simp: length_dropWhile_le less_Suc_eq_le)

text \<open>What a \<^verbatim>\<open>for\<close> loop, a comprehension or \<^verbatim>\<open>sorted\<close> walks over.\<close>

fun py_iter :: "json \<Rightarrow> exn + json list" where
  "py_iter (JList xs) = Inr xs"
| "py_iter (JObj kv) = Inr (map (\<lambda>p. JStr (fst p)) kv)"
| "py_iter (JStr s) = Inr (map JStr (codepoints s))"
| "py_iter _ = Inl TypeError"

text \<open>\<^verbatim>\<open>xs[:n]\<close> on a list: a negative bound counts from the end.\<close>

definition py_take :: "int \<Rightarrow> 'a list \<Rightarrow> 'a list" where
  "py_take n xs = (if 0 \<le> n then take (nat n) xs else take (length xs - nat (- n)) xs)"

text \<open>\<^verbatim>\<open>v[:1]\<close>: a string gives its first code point, a list its first element; numbers
  and \<^verbatim>\<open>None\<close> are not subscriptable and a dict rejects a slice as a key.\<close>

definition first_char :: "string \<Rightarrow> string" where
  "first_char s = (case s of [] \<Rightarrow> [] | c # cs \<Rightarrow> c # takeWhile is_cont cs)"

fun py_slice1 :: "json \<Rightarrow> exn + json" where
  "py_slice1 (JStr s) = Inr (JStr (first_char s))"
| "py_slice1 (JList xs) = Inr (JList (take 1 xs))"
| "py_slice1 _ = Inl TypeError"

subsection \<open>Strings\<close>

text \<open>\<^verbatim>\<open>s.strip(chars)\<close> and \<^verbatim>\<open>s.replace("Z", "+00:00")\<close>.\<close>

definition py_strip :: "string \<Rightarrow> string \<Rightarrow> string" where
  "py_strip chars s =
     rev (dropWhile (\<lambda>c. c \<in> set chars) (rev (dropWhile (\<lambda>c. c \<in> set chars) s)))"

definition replace_Z :: "string \<Rightarrow> string" where
  "replace_Z s = concat (map (\<lambda>c. if c = CHR ''Z'' then ''+00:00'' else [c]) s)"

function show_nat :: "nat \<Rightarrow> string" where
  "show_nat n =
     (if n < 10 then [''0123456789'' ! n]
      else show_nat (n div 10) @ [''0123456789'' ! (n mod 10)])"
  by pat_completeness auto
termination
  by (relation "measure id") auto

definition show_int :: "int \<Rightarrow> string" where
  "show_int i = (if i < 0 then CHR ''-'' # show_nat (nat (- i)) else show_nat (nat i))"

text \<open>
  Two things the standard library does stay parameters: the text \<^verbatim>\<open>repr\<close> gives for a list
  or a dict, and the conversion of an ISO 8601 text to the local time zone
  (\<^verbatim>\<open>fromisoformat\<close>, \<^verbatim>\<open>astimezone(ZoneInfo(tz))\<close>, \<^verbatim>\<open>strftime\<close>), which either raises or gives
  the formatted text.
\<close>

record pylib =
  container_repr :: "json \<Rightarrow> string"
  iso_to_local :: "string \<Rightarrow> string \<Rightarrow> exn + string"

text \<open>What an f-string puts in for \<^verbatim>\<open>{v}\<close>.\<close>

fun py_str :: "pylib \<Rightarrow> json \<Rightarrow> string" where
  "py_str L JNull = ''None''"
| "py_str L (JBool b) = (if b then ''True'' else ''False'')"
| "py_str L (JInt n) = show_int n"
| "py_str L (JStr s) = s"
| "py_str L (JList xs) = container_repr L (JList xs)"
| "py_str L (JObj kv) = container_repr L (JObj kv)"

definition em_dash :: string where
  "em_dash = [CHR 0xE2, CHR 0x80, CHR 0x94]"

definition py_join :: "string \<Rightarrow> string list \<Rightarrow> string" where
  "py_join sep xs = (case xs of [] \<Rightarrow> [] | y # ys \<Rightarrow> y @ concat (map (\<lambda>z. sep @ z) ys))"

subsection \<open>\<^verbatim>\<open>sorted\<close> and \<^verbatim>\<open>list.sort\<close> with a key\<close>

text \<open>
  Both compute the key of every element first, then order the elements by \<^verbatim>\<open><\<close> on the
  keys, stably. The model inserts from the right, an element going in front of the first
  one that is not smaller than it. Where every pair of keys can be compared the result is
  the one stable ordering, whatever the algorithm; where some pair cannot, the model
  raises at the first such pair it meets.
\<close>

fun py_insort :: "json \<times> 'a \<Rightarrow> (json \<times> 'a) list \<Rightarrow> exn + (json \<times> 'a) list" where
  "py_insort x [] = Inr [x]"
| "py_insort x (y # ys) =
     (case py_lt (fst y) (fst x) of
        Inl e \<Rightarrow> Inl e
      | Inr True \<Rightarrow> (case py_insort x ys of Inl e \<Rightarrow> Inl e | Inr r \<Rightarrow> Inr (y # r))
      | Inr False \<Rightarrow> Inr (x # y # ys))"

fun py_sort_keyed :: "(json \<times> 'a) list \<Rightarrow> exn + (json \<times> 'a) list" where
  "py_sort_keyed [] = Inr []"
| "py_sort_keyed (x # xs) =
     (case py_sort_keyed xs of Inl e \<Rightarrow> Inl e | Inr r \<Rightarrow> py_insort x r)"

definition py_sorted :: "('a \<Rightarrow> exn + json) \<Rightarrow> 'a list \<Rightarrow> exn + 'a list" where
  "py_sorted key xs =
     bind_exn (map_exn (\<lambda>x. bind_exn (key x) (\<lambda>k. Inr (k, x))) xs)
       (\<lambda>kxs. bind_exn (py_sort_keyed kxs) (\<lambda>r. Inr (map snd r)))"

section \<open>The program\<close>

subsection \<open>Configuration and the outside world\<close>

text \<open>
  The module constants read from the environment: \<^verbatim>\<open>DISCORD_WEBHOOK\<close> (may be unset),
  \<^verbatim>\<open>TOP_N\<close> and \<^verbatim>\<open>LOCAL_TZ\<close>.
\<close>

record config =
  discord_webhook :: "string option"
  top_n :: int
  local_tz :: string

text \<open>
  What one run finds outside: the state file (\<open>None\<close> when it does not exist, else what
  \<^verbatim>\<open>json.loads(STATE_FILE.read_text())\<close> raises or returns), the outcome of the sessions
  request and of the results request for a session key (\<^verbatim>\<open>raise_for_status\<close> and
  \<^verbatim>\<open>r.json()\<close> included), and whether the webhook request and the write of the state file
  raise.
\<close>

record world =
  state_file :: "(exn + json) option"
  sessions_resp :: "exn + json"
  results_resp :: "json \<Rightarrow> exn + json"
  post_resp :: "string \<Rightarrow> exn + unit"
  write_resp :: "json \<Rightarrow> exn + unit"

text \<open>What a run does to the outside, in order; a request that raises was still made.\<close>

datatype event =
    Get_sessions
  | Get_results json
  | Post_webhook string string
  | Write_state json
  | Print string

subsection \<open>\<^verbatim>\<open>load_state\<close> and \<^verbatim>\<open>save_state\<close>\<close>

definition default_state :: json where
  "default_state = JObj [(''last_posted_session_key'', JNull)]"

text \<open>
  The \<^verbatim>\<open>try\<close> around \<^verbatim>\<open>json.loads(STATE_FILE.read_text())\<close> turns every exception into
  the default state; a value that was parsed is returned as it is. The model starts
  where \<^verbatim>\<open>STATE_FILE.exists()\<close> has returned: that call is outside the \<^verbatim>\<open>try\<close>, and an
  \<^verbatim>\<open>OSError\<close> it raises itself (a directory that may not be searched) is not among the
  outcomes of \<open>state_file\<close>.
\<close>

definition load_state :: "(exn + json) option \<Rightarrow> exn + json" where
  "load_state file =
     (case file of
        Some content \<Rightarrow> (case content of Inr v \<Rightarrow> Inr v | Inl e \<Rightarrow> Inr default_state)
      | None \<Rightarrow> Inr default_state)"

definition save_state :: "world \<Rightarrow> json \<Rightarrow> event list \<times> (exn + unit)" where
  "save_state w state = ([Write_state state], write_resp w state)"

subsection \<open>\<^verbatim>\<open>get_latest_practice_session\<close>\<close>

text \<open>\<^verbatim>\<open>[s for s in sessions if (s.get("session_type") == "Practice")]\<close>\<close>

fun practice_of :: "json list \<Rightarrow> exn + json list" where
  "practice_of [] = Inr []"
| "practice_of (s # ss) =
     (case dict_get s ''session_type'' of
        Inl e \<Rightarrow> Inl e
      | Inr t \<Rightarrow>
          (case practice_of ss of
             Inl e \<Rightarrow> Inl e
           | Inr r \<Rightarrow> Inr (if py_eq t (JStr ''Practice'') then s # r else r)))"

text \<open>\<^verbatim>\<open>s.get("date_end") or s.get("date_start") or ""\<close>\<close>

definition sort_key_of :: "json \<Rightarrow> exn + json" where
  "sort_key_of s =
     bind_exn (dict_get s ''date_end'') (\<lambda>e.
       if truthy e then Inr e
       else bind_exn (dict_get s ''date_start'') (\<lambda>b. Inr (py_or b (JStr ''''))))"

text \<open>The result is \<open>JNull\<close> for Python's \<^verbatim>\<open>None\<close>.\<close>

definition get_latest_practice_session :: "exn + json \<Rightarrow> exn + json" where
  "get_latest_practice_session resp =
     bind_exn resp (\<lambda>sessions.
     bind_exn (py_iter sessions) (\<lambda>ss.
     bind_exn (practice_of ss) (\<lambda>practice.
       if practice = [] then Inr JNull
       else bind_exn (py_sorted sort_key_of practice) (\<lambda>sorted_practice.
              Inr (last sorted_practice)))))"

subsection \<open>\<^verbatim>\<open>get_session_results\<close>\<close>

text \<open>\<^verbatim>\<open>lambda x: x.get("position") or 9999\<close>\<close>

definition position_key :: "json \<Rightarrow> exn + json" where
  "position_key x = bind_exn (dict_get x ''position'') (\<lambda>p. Inr (py_or p (JInt 9999)))"

definition get_session_results :: "exn + json \<Rightarrow> exn + json list" where
  "get_session_results resp =
     bind_exn resp (\<lambda>rows.
     bind_exn (py_iter rows) (\<lambda>rs. py_sorted position_key rs))"

subsection \<open>\<^verbatim>\<open>format_when\<close>\<close>

text \<open>
  The \<^verbatim>\<open>try\<close> block holds \<^verbatim>\<open>iso.replace\<close> too, so a value without that method (anything
  but a string) ends in the \<^verbatim>\<open>except\<close> branch like a text that does not parse.
\<close>

definition format_when :: "pylib \<Rightarrow> string \<Rightarrow> json \<Rightarrow> exn + json" where
  "format_when L tz meta =
     bind_exn (dict_get meta ''date_end'') (\<lambda>e.
     bind_exn (if truthy e then Inr e else dict_get meta ''date_start'') (\<lambda>iso.
       if \<not> truthy iso then Inr (JStr '''')
       else (case iso of
               JStr s \<Rightarrow>
                 (case iso_to_local L tz (replace_Z s) of
                    Inr formatted \<Rightarrow> Inr (JStr formatted)
                  | Inl ex \<Rightarrow> Inr iso)
             | _ \<Rightarrow> Inr iso)))"

subsection \<open>\<^verbatim>\<open>post_to_discord\<close>\<close>

definition post_to_discord ::
  "config \<Rightarrow> world \<Rightarrow> string \<Rightarrow> string list \<Rightarrow> event list \<times> (exn + unit)" where
  "post_to_discord cfg w title lines =
     (case discord_webhook cfg of
        None \<Rightarrow> ([Print ''No DISCORD_WEBHOOK provided.''], Inr ())
      | Some url \<Rightarrow>
          if url = [] then ([Print ''No DISCORD_WEBHOOK provided.''], Inr ())
          else (let content = ''**'' @ title @ ''**'' @ [CHR 0x0A] @ py_join [CHR 0x0A] lines
                in ([Post_webhook url content], post_resp w content)))"

subsection \<open>\<^verbatim>\<open>main\<close>\<close>

text \<open>The body of the loop over \<^verbatim>\<open>results[:TOP_N]\<close>: one line of the message.\<close>

definition render_line :: "pylib \<Rightarrow> json \<Rightarrow> exn + string" where
  "render_line L row =
     bind_exn (dict_get row ''position'') (\<lambda>pos.
     bind_exn (dict_get row ''driver_first_name'') (\<lambda>fn.
     bind_exn (py_slice1 (py_or fn (JStr ''''))) (\<lambda>first.
     bind_exn (dict_get row ''driver_last_name'') (\<lambda>ln.
     let last = py_or ln (JStr '''');
         name = py_strip ''. '' (py_str L first @ ''. '' @ py_str L last)
     in
     bind_exn (dict_get row ''team_name'') (\<lambda>tn.
     let team = py_or tn (JStr '''') in
     bind_exn (dict_get row ''best_lap_time'') (\<lambda>bl.
     bind_exn (if truthy bl then Inr bl
               else bind_exn (dict_get row ''time'') (\<lambda>t. Inr (py_or t (JStr '''')))) (\<lambda>lap.
       Inr (py_str L pos @ ''. '' @ name @ '' '' @ em_dash @ '' '' @ py_str L team
              @ ''  '' @ py_str L lap))))))))"

text \<open>Lines 83 to 97: the title and the lines.\<close>

definition build_message ::
  "pylib \<Rightarrow> config \<Rightarrow> json \<Rightarrow> json list \<Rightarrow> exn + (string \<times> string list)" where
  "build_message L cfg sess results =
     bind_exn (dict_get sess ''meeting_name'') (\<lambda>mn.
     bind_exn (if truthy mn then Inr mn
               else bind_exn (dict_get sess ''country_name'') (\<lambda>cn.
                      Inr (py_or cn (JStr ''Grand Prix'')))) (\<lambda>gp.
     bind_exn (dict_get sess ''session_name'') (\<lambda>sn.
     let sname = py_or sn (JStr ''Practice'') in
     bind_exn (format_when L (local_tz cfg) sess) (\<lambda>when.
     bind_exn (map_exn (render_line L) (py_take (top_n cfg) results)) (\<lambda>lines.
       Inr (py_str L gp @ '' '' @ em_dash @ '' '' @ py_str L sname @ '' Results (''
              @ py_str L when @ '')'', lines))))))"

text \<open>Lines 100 to 103: the key goes into the loaded state, the state is saved.\<close>

definition mark_posted ::
  "pylib \<Rightarrow> world \<Rightarrow> json \<Rightarrow> json \<Rightarrow> event list \<times> (exn + unit)" where
  "mark_posted L w state sk =
     (case dict_set state ''last_posted_session_key'' sk of
        Inl e \<Rightarrow> ([], Inl e)
      | Inr state' \<Rightarrow>
          (case save_state w state' of
             (evs, Inl e) \<Rightarrow> (evs, Inl e)
           | (evs, Inr u) \<Rightarrow>
               (evs @ [Print (''Posted session '' @ py_str L sk @ ''.'')], Inr ())))"

text \<open>
  A run gives the events in order and how it ended: \<open>Inr ()\<close> for a return, \<open>Inl e\<close> for an
  exception that leaves \<^verbatim>\<open>main\<close>.
\<close>

definition main :: "pylib \<Rightarrow> config \<Rightarrow> world \<Rightarrow> event list \<times> (exn + unit)" where
  "main L cfg w =
     (case load_state (state_file w) of
        Inl e \<Rightarrow> ([], Inl e)
      | Inr state \<Rightarrow>
     (case get_latest_practice_session (sessions_resp w) of
        Inl e \<Rightarrow> ([Get_sessions], Inl e)
      | Inr sess \<Rightarrow>
     if \<not> truthy sess then ([Get_sessions, Print ''No practice session found.''], Inr ())
     else
     (case dict_get sess ''session_key'' of
        Inl e \<Rightarrow> ([Get_sessions], Inl e)
      | Inr sk \<Rightarrow>
     if \<not> truthy sk then ([Get_sessions, Print ''Session has no key.''], Inr ())
     else
     (case dict_get state ''last_posted_session_key'' of
        Inl e \<Rightarrow> ([Get_sessions], Inl e)
      | Inr last_key \<Rightarrow>
     if py_eq last_key sk
     then ([Get_sessions, Print ''Already posted this session; skipping.''], Inr ())
     else
     (case get_session_results (results_resp w sk) of
        Inl e \<Rightarrow> ([Get_sessions, Get_results sk], Inl e)
      | Inr results \<Rightarrow>
     if results = []
     then ([Get_sessions, Get_results sk, Print ''No results yet; try again next run.''],
           Inr ())
     else
     (case build_message L cfg sess results of
        Inl e \<Rightarrow> ([Get_sessions, Get_results sk], Inl e)
      | Inr (title, lines) \<Rightarrow>
     (case post_to_discord cfg w title lines of
        (evs, Inl e) \<Rightarrow> ([Get_sessions, Get_results sk] @ evs, Inl e)
      | (evs, Inr u) \<Rightarrow>
     (case mark_posted L w state sk of
        (evs', r) \<Rightarrow> ([Get_sessions, Get_results sk] @ evs @ evs', r)))))))))"

section \<open>What the specification says, in the model's terms\<close>

text \<open>A session entry counts as a practice session when its \<^verbatim>\<open>session_type\<close> is the string
  \<^verbatim>\<open>"Practice"\<close>.\<close>

definition is_practice :: "json \<Rightarrow> bool" where
  "is_practice s = (dict_get s ''session_type'' = Inr (JStr ''Practice''))"

text \<open>The sort key as the specification words it: the end timestamp if present, else the
  start timestamp, else the empty string.\<close>

definition claimed_sort_key :: "json \<Rightarrow> string" where
  "claimed_sort_key s =
     (case s of
        JObj kv \<Rightarrow>
          (case map_of kv ''date_end'' of
             Some (JStr e) \<Rightarrow> e
           | _ \<Rightarrow> (case map_of kv ''date_start'' of Some (JStr b) \<Rightarrow> b | _ \<Rightarrow> []))
      | _ \<Rightarrow> [])"

text \<open>The data model's session: an object whose timestamps are ISO 8601 texts or absent.
  An end timestamp, when there is one, is not the empty text.\<close>

definition well_dated :: "json \<Rightarrow> bool" where
  "well_dated s =
     (case s of
        JObj kv \<Rightarrow>
          (case map_of kv ''date_end'' of
             None \<Rightarrow> True | Some JNull \<Rightarrow> True | Some (JStr e) \<Rightarrow> e \<noteq> [] | _ \<Rightarrow> False)
          \<and> (case map_of kv ''date_start'' of
               None \<Rightarrow> True | Some JNull \<Rightarrow> True | Some (JStr b) \<Rightarrow> True | _ \<Rightarrow> False)
      | _ \<Rightarrow> False)"

text \<open>The data model's result row: an object whose position is an integer or absent.\<close>

definition int_position :: "json \<Rightarrow> bool" where
  "int_position r =
     (case r of
        JObj kv \<Rightarrow>
          (case map_of kv ''position'' of
             None \<Rightarrow> True | Some JNull \<Rightarrow> True | Some (JInt n) \<Rightarrow> True | _ \<Rightarrow> False)
      | _ \<Rightarrow> False)"

text \<open>The rank the specification gives a row: its position, 9999 when the position is
  absent.\<close>

definition claimed_rank :: "json \<Rightarrow> int" where
  "claimed_rank r =
     (case r of
        JObj kv \<Rightarrow> (case map_of kv ''position'' of Some (JInt n) \<Rightarrow> n | _ \<Rightarrow> 9999)
      | _ \<Rightarrow> 9999)"

text \<open>The rank \<^verbatim>\<open>x.get("position") or 9999\<close> gives a row with an integer or absent
  position: zero is falsy, so it ranks as 9999 too.\<close>

definition position_rank :: "json \<Rightarrow> int" where
  "position_rank r =
     (case r of
        JObj kv \<Rightarrow>
          (case map_of kv ''position'' of
             Some (JInt n) \<Rightarrow> (if n = 0 then 9999 else n)
           | _ \<Rightarrow> 9999)
      | _ \<Rightarrow> 9999)"

text \<open>A text field of a row: absent or \<^verbatim>\<open>null\<close> reads as the empty text.\<close>

definition text_or_absent :: "json option \<Rightarrow> bool" where
  "text_or_absent v =
     (case v of None \<Rightarrow> True | Some JNull \<Rightarrow> True | Some (JStr s) \<Rightarrow> True | _ \<Rightarrow> False)"

definition text_of :: "json option \<Rightarrow> string" where
  "text_of v = (case v of Some (JStr s) \<Rightarrow> s | _ \<Rightarrow> [])"

definition well_typed_row :: "json \<Rightarrow> bool" where
  "well_typed_row r =
     (case r of
        JObj kv \<Rightarrow>
          int_position r
          \<and> text_or_absent (map_of kv ''driver_first_name'')
          \<and> text_or_absent (map_of kv ''driver_last_name'')
          \<and> text_or_absent (map_of kv ''team_name'')
          \<and> text_or_absent (map_of kv ''best_lap_time'')
          \<and> text_or_absent (map_of kv ''time'')
      | _ \<Rightarrow> False)"

text \<open>The line the specification describes for a row:
  \<^verbatim>\<open><position>. <first-initial>. <last name> -- <team name>  <lap-or-time>\<close> (with an em
  dash), the name part stripped of periods and spaces at both ends.\<close>

definition claimed_line :: "json \<Rightarrow> string" where
  "claimed_line r =
     (case r of
        JObj kv \<Rightarrow>
          (case map_of kv ''position'' of Some (JInt n) \<Rightarrow> show_int n | _ \<Rightarrow> ''None'')
          @ ''. ''
          @ py_strip ''. ''
              (first_char (text_of (map_of kv ''driver_first_name'')) @ ''. ''
                 @ text_of (map_of kv ''driver_last_name''))
          @ '' '' @ em_dash @ '' ''
          @ text_of (map_of kv ''team_name'')
          @ ''  ''
          @ (if text_of (map_of kv ''best_lap_time'') \<noteq> []
             then text_of (map_of kv ''best_lap_time'')
             else text_of (map_of kv ''time''))
      | _ \<Rightarrow> [])"

text \<open>The replacement as the specification words it: a trailing \<^verbatim>\<open>Z\<close> becomes the UTC
  offset.\<close>

definition replace_trailing_Z :: "string \<Rightarrow> string" where
  "replace_trailing_Z s =
     (if s \<noteq> [] \<and> last s = CHR ''Z'' then butlast s @ ''+00:00'' else s)"

section \<open>Sample data\<close>

text \<open>The scenario of the specification: one practice session of the Dutch Grand Prix,
  the time zone Europe/Amsterdam, a webhook that accepts the message.\<close>

definition lib0 :: pylib where
  "lib0 =
     \<lparr> container_repr = (\<lambda>j. ''[...]''),
       iso_to_local =
         (\<lambda>tz s. if tz = ''Europe/Amsterdam'' \<and> s = ''2024-08-23T11:30:00+00:00''
                  then Inr ''Fri 23 Aug 2024 13:30 CEST'' else Inl ValueError) \<rparr>"

definition cfg0 :: config where
  "cfg0 =
     \<lparr> discord_webhook = Some ''https://hook.example'', top_n = 10,
       local_tz = ''Europe/Amsterdam'' \<rparr>"

definition session_with_key :: "json \<Rightarrow> json" where
  "session_with_key k =
     JObj [(''session_key'', k), (''session_type'', JStr ''Practice''),
           (''session_name'', JStr ''Practice 1''), (''meeting_name'', JStr ''Dutch Grand Prix''),
           (''date_end'', JStr ''2024-08-23T11:30:00+00:00'')]"

definition result_row :: "json \<Rightarrow> string \<Rightarrow> string \<Rightarrow> json" where
  "result_row p first_name last_name =
     JObj [(''position'', p), (''driver_first_name'', JStr first_name),
           (''driver_last_name'', JStr last_name), (''team_name'', JStr ''Red Bull Racing''),
           (''best_lap_time'', JStr ''1:10.702'')]"

definition world_of :: "(exn + json) option \<Rightarrow> json \<Rightarrow> json \<Rightarrow> world" where
  "world_of file sessions rows =
     \<lparr> state_file = file, sessions_resp = Inr sessions, results_resp = (\<lambda>k. Inr rows),
       post_resp = (\<lambda>c. Inr ()), write_resp = (\<lambda>s. Inr ()) \<rparr>"

text \<open>The state file holds the given last-posted key and one more entry.\<close>

definition sample_world :: "json \<Rightarrow> world" where
  "sample_world last_key =
     world_of
       (Some (Inr (JObj [(''last_posted_session_key'', last_key), (''note'', JStr ''keep'')])))
       (JList [session_with_key (JInt 9999)])
       (JList [result_row (JInt 1) ''Max'' ''Verstappen''])"

text \<open>A meeting with three practice sessions and a later qualifying session. The second
  practice session has a start timestamp only, equal to the end timestamp of the third.\<close>

definition sample_sessions :: "json list" where
  "sample_sessions =
     [JObj [(''session_type'', JStr ''Practice''), (''session_key'', JInt 1),
            (''date_end'', JStr ''2024-08-23'')],
      JObj [(''session_type'', JStr ''Qualifying''), (''session_key'', JInt 4),
            (''date_end'', JStr ''2024-08-25'')],
      JObj [(''session_type'', JStr ''Practice''), (''session_key'', JInt 2),
            (''date_start'', JStr ''2024-08-24'')],
      JObj [(''session_type'', JStr ''Practice''), (''session_key'', JInt 3),
            (''date_start'', JStr ''2024-08-20''), (''date_end'', JStr ''2024-08-24'')]]"

text \<open>The result rows of the specification's example: positions 2, 1 and \<^verbatim>\<open>None\<close>.\<close>

definition sample_rows :: "json list" where
  "sample_rows =
     [JObj [(''position'', JInt 2), (''driver_last_name'', JStr ''Norris'')],
      JObj [(''position'', JInt 1), (''driver_last_name'', JStr ''Verstappen'')],
      JObj [(''position'', JNull), (''driver_last_name'', JStr ''Sainz'')]]"


text \<open>A library whose conversion does what \<^verbatim>\<open>fromisoformat\<close> of Python 3.11 does on two
  texts: an offset with seconds (\<^verbatim>\<open>+00:00:00\<close>) is accepted, a \<^verbatim>\<open>Z\<close> that is not the end of
  the text is not.\<close>

definition lib_offset_seconds :: pylib where
  "lib_offset_seconds =
     \<lparr> container_repr = (\<lambda>j. ''[...]''),
       iso_to_local =
         (\<lambda>tz s. if tz = ''Europe/Amsterdam'' \<and> s = ''2024-08-23T11:30:00+00:00:00''
                  then Inr ''Fri 23 Aug 2024 13:30 CEST'' else Inl ValueError) \<rparr>"

section \<open>Facts about the Python operations\<close>

lemma bind_exn_simps [simp]:
  "bind_exn (Inl e) f = Inl e" "bind_exn (Inr v) f = f v"
  by (simp_all add: bind_exn_def)

lemma map_exn_total:
  "\<forall>x\<in>set xs. f x = Inr (g x) \<Longrightarrow> map_exn f xs = Inr (map g xs)"
  by (induction xs) auto

lemma py_eq_JStr [simp]: "py_eq t (JStr s) \<longleftrightarrow> t = JStr s"
proof (cases t)
  case (JList xs)
  then show ?thesis by (cases xs) auto
qed auto

subsection \<open>Sorting\<close>

lemma py_insort_mset: "py_insort x ys = Inr r \<Longrightarrow> mset r = add_mset x (mset ys)"
  by (induction ys arbitrary: r) (auto split: sum.splits if_splits bool.splits)

lemma py_sort_keyed_mset: "py_sort_keyed xs = Inr r \<Longrightarrow> mset r = mset xs"
  by (induction xs arbitrary: r) (auto split: sum.splits dest: py_insort_mset)

lemma keyed_Inr:
  "map_exn (\<lambda>x. bind_exn (key x) (\<lambda>k. Inr (k, x))) xs = Inr kxs \<Longrightarrow> map snd kxs = xs"
proof (induction xs arbitrary: kxs)
  case (Cons x xs)
  then show ?case by (auto split: sum.splits simp: bind_exn_def)
qed simp

text \<open>Whatever the keys, a sort that returns gives back the elements it was given.\<close>

lemma py_sorted_mset:
  assumes "py_sorted key xs = Inr ys"
  shows "mset ys = mset xs"
proof -
  from assms obtain kxs r
    where k: "map_exn (\<lambda>x. bind_exn (key x) (\<lambda>k. Inr (k, x))) xs = Inr kxs"
      and r: "py_sort_keyed kxs = Inr r" and ys: "ys = map snd r"
    by (auto simp: py_sorted_def bind_exn_def split: sum.splits)
  from r have "mset r = mset kxs" by (rule py_sort_keyed_mset)
  then have "mset (map snd r) = mset (map snd kxs)" by (metis mset_map)
  with k ys show ?thesis by (simp add: keyed_Inr)
qed

text \<open>Where \<^verbatim>\<open><\<close> on the keys is a linear order, the model's sort is the stable insertion
  sort of the library.\<close>

lemma py_insort_keys:
  fixes emb :: "json \<Rightarrow> 'k::linorder"
  assumes "\<And>y. y \<in> set ys \<Longrightarrow> py_lt (k y) (k x) = Inr (emb (k y) < emb (k x))"
  shows "py_insort (k x, x) (map (\<lambda>y. (k y, y)) ys)
           = Inr (map (\<lambda>y. (k y, y)) (insort_key (\<lambda>y. emb (k y)) x ys))"
  using assms by (induction ys) (auto simp: not_le split: bool.splits)

lemma py_sort_keyed_keys:
  fixes emb :: "json \<Rightarrow> 'k::linorder"
  assumes "\<And>x y. x \<in> set xs \<Longrightarrow> y \<in> set xs
             \<Longrightarrow> py_lt (k x) (k y) = Inr (emb (k x) < emb (k y))"
  shows "py_sort_keyed (map (\<lambda>y. (k y, y)) xs)
           = Inr (map (\<lambda>y. (k y, y)) (sort_key (\<lambda>y. emb (k y)) xs))"
  using assms
proof (induction xs)
  case (Cons x xs)
  have "py_insort (k x, x) (map (\<lambda>y. (k y, y)) (sort_key (\<lambda>y. emb (k y)) xs))
          = Inr (map (\<lambda>y. (k y, y))
                  (insort_key (\<lambda>y. emb (k y)) x (sort_key (\<lambda>y. emb (k y)) xs)))"
    by (rule py_insort_keys) (simp add: Cons.prems)
  with Cons show ?case by simp
qed simp

lemma py_sorted_keys:
  fixes emb :: "json \<Rightarrow> 'k::linorder"
  assumes "\<And>x. x \<in> set xs \<Longrightarrow> key x = Inr (k x)"
    and "\<And>x y. x \<in> set xs \<Longrightarrow> y \<in> set xs
           \<Longrightarrow> py_lt (k x) (k y) = Inr (emb (k x) < emb (k y))"
  shows "py_sorted key xs = Inr (sort_key (\<lambda>y. emb (k y)) xs)"
proof -
  have "map_exn (\<lambda>x. bind_exn (key x) (\<lambda>k. Inr (k, x))) xs = Inr (map (\<lambda>y. (k y, y)) xs)"
    using assms(1) by (intro map_exn_total) simp
  then show ?thesis
    using py_sort_keyed_keys [of xs k emb, OF assms(2)]
    by (simp add: py_sorted_def comp_def)
qed

lemma py_sorted_strings:
  assumes "\<And>x. x \<in> set xs \<Longrightarrow> key x = Inr (JStr (f x))"
  shows "py_sorted key xs = Inr (sort_key f xs)"
  using py_sorted_keys
          [of xs key "\<lambda>x. JStr (f x)" "\<lambda>j. case j of JStr s \<Rightarrow> s | _ \<Rightarrow> []"] assms
  by simp

lemma py_sorted_ints:
  assumes "\<And>x. x \<in> set xs \<Longrightarrow> key x = Inr (JInt (f x))"
  shows "py_sorted key xs = Inr (sort_key f xs)"
  using py_sorted_keys
          [of xs key "\<lambda>x. JInt (f x)" "\<lambda>j. case j of JInt n \<Rightarrow> n | _ \<Rightarrow> 0"] assms
  by simp

lemma sorted_last_Max:
  fixes f :: "'a \<Rightarrow> 'k::linorder"
  assumes "sorted (map f ys)" "ys \<noteq> []"
  shows "f (last ys) = Max (f ` set ys)"
proof -
  have "\<forall>y\<in>set ys. f y \<le> f (last ys)"
    using assms
  proof (induction ys)
    case (Cons y ys)
    then show ?case by (cases ys) auto
  qed simp
  moreover have "last ys \<in> set ys" using assms by simp
  ultimately show ?thesis
    by (intro Max_eqI [symmetric]) auto
qed

lemma last_filter_last: "ys \<noteq> [] \<Longrightarrow> P (last ys) \<Longrightarrow> last (filter P ys) = last ys"
  by (induction ys rule: rev_induct) simp_all

text \<open>The last element of a stable sort is the last of the input among those with the
  greatest key.\<close>

lemma last_sort_key:
  fixes f :: "'a \<Rightarrow> 'k::linorder"
  assumes "xs \<noteq> []"
  shows "last (sort_key f xs) = last (filter (\<lambda>x. f x = Max (f ` set xs)) xs)"
proof -
  let ?ys = "sort_key f xs"
  let ?m = "Max (f ` set xs)"
  from assms have ne: "?ys \<noteq> []" by (metis length_sort length_0_conv)
  have "f (last ?ys) = Max (f ` set ?ys)"
    using ne by (intro sorted_last_Max) simp_all
  then have "f (last ?ys) = ?m" by simp
  then have "last (filter (\<lambda>x. f x = ?m) ?ys) = last ?ys"
    using ne by (intro last_filter_last)
  then show ?thesis by (simp add: sort_key_stable)
qed

section \<open>Facts about the program\<close>

lemma load_state_total: "\<exists>s. load_state file = Inr s"
  by (auto simp: load_state_def split: option.splits sum.splits)

lemma practice_of_Inr:
  "practice_of ss = Inr r \<Longrightarrow> r = filter is_practice ss \<and> (\<forall>s\<in>set ss. \<exists>kv. s = JObj kv)"
proof (induction ss arbitrary: r)
  case (Cons s ss)
  then show ?case
    by (cases s) (auto simp: is_practice_def split: sum.splits if_splits)
qed simp

lemma practice_of_objects:
  "\<forall>s\<in>set ss. \<exists>kv. s = JObj kv \<Longrightarrow> practice_of ss = Inr (filter is_practice ss)"
  by (induction ss) (auto simp: is_practice_def)

text \<open>What the resolver returns is \<^verbatim>\<open>None\<close> or one of the practice entries, a non-empty
  dict.\<close>

lemma resolved_cases:
  assumes "get_latest_practice_session resp = Inr s"
  shows "s = JNull \<or> (is_practice s \<and> truthy s \<and> (\<exists>kv. s = JObj kv))"
proof -
  from assms obtain ss practice where
    "practice_of ss = Inr practice" and
    c: "practice = [] \<and> s = JNull
        \<or> practice \<noteq> [] \<and> (\<exists>sp. py_sorted sort_key_of practice = Inr sp \<and> s = last sp)"
    by (auto simp: get_latest_practice_session_def bind_exn_def split: sum.splits if_splits)
  then have p: "practice = filter is_practice ss" and o: "\<forall>s\<in>set ss. \<exists>kv. s = JObj kv"
    using practice_of_Inr by blast+
  show ?thesis
  proof (cases "practice = []")
    case True
    with c show ?thesis by simp
  next
    case False
    with c obtain sp where sp: "py_sorted sort_key_of practice = Inr sp" "s = last sp"
      by auto
    then have m: "mset sp = mset practice" by (simp add: py_sorted_mset)
    with False have "sp \<noteq> []" by auto
    then have "s \<in> set sp" using sp by simp
    with m have "s \<in> set practice" by (metis set_mset_mset)
    with p o have "is_practice s" "\<exists>kv. s = JObj kv" by auto
    moreover then have "truthy s" by (auto simp: is_practice_def split: option.splits)
    ultimately show ?thesis by simp
  qed
qed

text \<open>The run once the session, its key and the persisted key are known.\<close>

lemma main_gate:
  assumes "load_state (state_file w) = Inr state"
    and "get_latest_practice_session (sessions_resp w) = Inr sess" and "truthy sess"
    and "dict_get sess ''session_key'' = Inr sk" and "truthy sk"
    and "dict_get state ''last_posted_session_key'' = Inr last_key"
  shows "py_eq last_key sk \<Longrightarrow>
           main L cfg w
             = ([Get_sessions, Print ''Already posted this session; skipping.''], Inr ())"
    and "\<not> py_eq last_key sk \<Longrightarrow> get_session_results (results_resp w sk) = Inr [] \<Longrightarrow>
           main L cfg w
             = ([Get_sessions, Get_results sk, Print ''No results yet; try again next run.''],
                Inr ())"
    and "\<not> py_eq last_key sk \<Longrightarrow> get_session_results (results_resp w sk) = Inr rs \<Longrightarrow>
         rs \<noteq> [] \<Longrightarrow> build_message L cfg sess rs = Inr (title, lines) \<Longrightarrow>
         discord_webhook cfg = Some url \<Longrightarrow> url \<noteq> [] \<Longrightarrow>
           \<exists>evs r. main L cfg w =
             ([Get_sessions, Get_results sk,
               Post_webhook url
                 (''**'' @ title @ ''**'' @ [CHR 0x0A] @ py_join [CHR 0x0A] lines)] @ evs, r)"
  using assms
  by (auto simp: main_def post_to_discord_def Let_def split: sum.splits prod.splits)

text \<open>A run that asked for results had resolved a session with that key and passed the
  gate.\<close>

lemma main_fetch:
  assumes "Get_results k \<in> set (fst (main L cfg w))"
  shows "\<exists>state sess last_key. load_state (state_file w) = Inr state
           \<and> get_latest_practice_session (sessions_resp w) = Inr sess \<and> truthy sess
           \<and> dict_get sess ''session_key'' = Inr k \<and> truthy k
           \<and> dict_get state ''last_posted_session_key'' = Inr last_key
           \<and> \<not> py_eq last_key k"
  using assms
  by (auto simp: main_def mark_posted_def save_state_def post_to_discord_def Let_def
           split: sum.splits if_splits prod.splits option.splits)

text \<open>A run that wrote the state file wrote the loaded dict with the session key put in.\<close>

lemma main_write:
  assumes "main L cfg w = (tr, r)" "Write_state s \<in> set tr"
  shows "\<exists>sess sk kv. load_state (state_file w) = Inr (JObj kv)
           \<and> get_latest_practice_session (sessions_resp w) = Inr sess \<and> truthy sess
           \<and> dict_get sess ''session_key'' = Inr sk \<and> truthy sk
           \<and> s = JObj (AList.update ''last_posted_session_key'' sk kv)"
proof -
  obtain state where st: "load_state (state_file w) = Inr state"
    using load_state_total by blast
  show ?thesis
  proof (cases state)
    case (JObj kv)
    with st assms show ?thesis
      by (auto simp: main_def mark_posted_def save_state_def post_to_discord_def Let_def
               split: sum.splits if_splits prod.splits option.splits)
  qed (use st assms in \<open>auto simp: main_def split: sum.splits if_splits\<close>)
qed

subsection \<open>The sample run\<close>

lemma sample_resolved:
  "get_latest_practice_session (Inr (JList [session_with_key k])) = Inr (session_with_key k)"
  by (simp add: get_latest_practice_session_def session_with_key_def py_sorted_def
                sort_key_of_def)

lemma sample_session_key [simp]:
  "dict_get (session_with_key k) ''session_key'' = Inr k" "session_with_key k \<noteq> JNull"
  "truthy (session_with_key k)"
  by (simp_all add: session_with_key_def)

lemma sample_results:
  "get_session_results (Inr (JList [result_row p f l])) = Inr [result_row p f l]"
  by (simp add: get_session_results_def py_sorted_def position_key_def result_row_def)

lemma sample_line:
  "render_line lib0 (result_row (JInt 1) ''Max'' ''Verstappen'')
     = Inr (''1. M. Verstappen '' @ em_dash @ '' Red Bull Racing  1:10.702'')"
  by (simp add: render_line_def result_row_def py_or_def first_char_def py_strip_def
                show_int_def Let_def is_cont_def)

lemma sample_when:
  "format_when lib0 ''Europe/Amsterdam'' (session_with_key k)
     = Inr (JStr ''Fri 23 Aug 2024 13:30 CEST'')"
  by (simp add: session_with_key_def format_when_def lib0_def replace_Z_def)

lemma sample_message:
  "build_message lib0 cfg0 (session_with_key k) [result_row (JInt 1) ''Max'' ''Verstappen'']
     = Inr (''Dutch Grand Prix '' @ em_dash @ '' Practice 1 Results (Fri 23 Aug 2024 13:30 CEST)'',
            [''1. M. Verstappen '' @ em_dash @ '' Red Bull Racing  1:10.702''])"
  by (simp add: build_message_def sample_line sample_when cfg0_def py_take_def Let_def)
     (simp add: session_with_key_def py_or_def)

lemma sample_run:
  "main lib0 cfg0 (sample_world JNull)
   = ([Get_sessions, Get_results (JInt 9999),
       Post_webhook ''https://hook.example''
         (''**Dutch Grand Prix '' @ em_dash @ '' Practice 1 Results (Fri 23 Aug 2024 13:30 CEST)**''
            @ [CHR 0x0A] @ ''1. M. Verstappen '' @ em_dash @ '' Red Bull Racing  1:10.702''),
       Write_state (JObj [(''last_posted_session_key'', JInt 9999), (''note'', JStr ''keep'')]),
       Print ''Posted session 9999.''], Inr ())"
  by (simp add: main_def sample_world_def world_of_def load_state_def sample_resolved
                sample_results sample_message post_to_discord_def mark_posted_def
                save_state_def show_int_def)
     (simp add: cfg0_def py_join_def)

lemma sample_no_results:
  "main lib0 cfg0 (world_of None (JList [session_with_key (JInt 9999)]) (JList []))
     = ([Get_sessions, Get_results (JInt 9999), Print ''No results yet; try again next run.''],
        Inr ())"
  by (simp add: main_def world_of_def load_state_def default_state_def sample_resolved
                get_session_results_def py_sorted_def)


subsection \<open>The resolver on dated sessions\<close>

lemma sort_key_of_well_dated:
  "well_dated s \<Longrightarrow> sort_key_of s = Inr (JStr (claimed_sort_key s))"
  by (auto simp: well_dated_def sort_key_of_def claimed_sort_key_def py_or_def
           split: json.splits option.splits)

lemma last_filter_index:
  assumes "filter P xs \<noteq> []"
  shows "\<exists>i<length xs. xs ! i = last (filter P xs) \<and> P (xs ! i)
           \<and> (\<forall>j<length xs. P (xs ! j) \<longrightarrow> j \<le> i)"
  using assms
proof (induction xs rule: rev_induct)
  case Nil
  then show ?case by simp
next
  case (snoc x xs)
  show ?case
  proof (cases "P x")
    case True
    then have "(xs @ [x]) ! length xs = last (filter P (xs @ [x])) \<and> P ((xs @ [x]) ! length xs)
                 \<and> (\<forall>j<length (xs @ [x]). P ((xs @ [x]) ! j) \<longrightarrow> j \<le> length xs)"
      by auto
    then show ?thesis by (intro exI [of _ "length xs"]) simp
  next
    case False
    with snoc.prems have "filter P xs \<noteq> []" by simp
    with snoc.IH obtain i where i: "i < length xs" "xs ! i = last (filter P xs)" "P (xs ! i)"
      "\<forall>j<length xs. P (xs ! j) \<longrightarrow> j \<le> i"
      by blast
    have "\<forall>j<length (xs @ [x]). P ((xs @ [x]) ! j) \<longrightarrow> j \<le> i"
    proof (intro allI impI)
      fix j assume j: "j < length (xs @ [x])" "P ((xs @ [x]) ! j)"
      with False have "j < length xs" by (cases "j = length xs") auto
      with j i show "j \<le> i" by (simp add: nth_append)
    qed
    with i False show ?thesis
      by (intro exI [of _ i]) (simp add: nth_append)
  qed
qed

lemma resolve_well_dated:
  assumes "\<forall>s\<in>set ss. \<exists>kv. s = JObj kv"
    and "\<forall>s\<in>set ss. is_practice s \<longrightarrow> well_dated s"
    and "\<exists>s\<in>set ss. is_practice s"
  shows "get_latest_practice_session (Inr (JList ss))
           = Inr (last (filter (\<lambda>s. is_practice s
                    \<and> claimed_sort_key s = Max (claimed_sort_key ` {s \<in> set ss. is_practice s})) ss))"
proof -
  let ?p = "filter is_practice ss"
  from assms(1) have p: "practice_of ss = Inr ?p" by (rule practice_of_objects)
  from assms(3) have ne: "?p \<noteq> []" by (simp add: filter_empty_conv)
  have "py_sorted sort_key_of ?p = Inr (sort_key claimed_sort_key ?p)"
    using assms(2) by (intro py_sorted_strings sort_key_of_well_dated) simp
  with p ne have "get_latest_practice_session (Inr (JList ss))
                    = Inr (last (sort_key claimed_sort_key ?p))"
    by (simp add: get_latest_practice_session_def)
  also have "last (sort_key claimed_sort_key ?p)
               = last (filter (\<lambda>x. claimed_sort_key x = Max (claimed_sort_key ` set ?p)) ?p)"
    using ne by (rule last_sort_key)
  also have "set ?p = {s \<in> set ss. is_practice s}" by auto
  finally show ?thesis by (simp add: conj_commute)
qed

subsection \<open>Rows typed as in the data model\<close>

lemma position_key_int:
  "int_position r \<Longrightarrow> position_key r = Inr (JInt (position_rank r))"
  by (auto simp: int_position_def position_key_def position_rank_def py_or_def
           split: json.splits option.splits)

lemma rank_agree:
  "int_position r \<Longrightarrow> claimed_rank r \<noteq> 0 \<Longrightarrow> position_rank r = claimed_rank r"
  by (auto simp: int_position_def claimed_rank_def position_rank_def
           split: json.splits option.splits)

lemma sample_rows_sorted:
  "get_session_results (Inr (JList sample_rows))
     = Inr [sample_rows ! 1, sample_rows ! 0, sample_rows ! 2]"
  by (simp add: get_session_results_def py_sorted_def position_key_def sample_rows_def py_or_def)

lemma text_field:
  assumes "text_or_absent (map_of kv k)"
  shows "py_or (case map_of kv k of None \<Rightarrow> JNull | Some v \<Rightarrow> v) (JStr []) = JStr (text_of (map_of kv k))"
    and "truthy (case map_of kv k of None \<Rightarrow> JNull | Some v \<Rightarrow> v) \<longleftrightarrow> text_of (map_of kv k) \<noteq> []"
    and "truthy (case map_of kv k of None \<Rightarrow> JNull | Some v \<Rightarrow> v) \<Longrightarrow>
           (case map_of kv k of None \<Rightarrow> JNull | Some v \<Rightarrow> v) = JStr (text_of (map_of kv k))"
  using assms
  by (auto simp: text_or_absent_def text_of_def py_or_def split: option.splits json.splits)

lemma position_text:
  assumes "int_position (JObj kv)"
  shows "py_str L (case map_of kv ''position'' of None \<Rightarrow> JNull | Some v \<Rightarrow> v)
           = (case map_of kv ''position'' of Some (JInt n) \<Rightarrow> show_int n | _ \<Rightarrow> ''None'')"
  using assms by (auto simp: int_position_def split: option.splits json.splits)

lemma render_line_well_typed:
  assumes "well_typed_row r"
  shows "render_line L r = Inr (claimed_line r)"
proof -
  from assms obtain kv where r: "r = JObj kv" by (cases r) (auto simp: well_typed_row_def)
  with assms have t: "int_position (JObj kv)"
    "text_or_absent (map_of kv ''driver_first_name'')"
    "text_or_absent (map_of kv ''driver_last_name'')"
    "text_or_absent (map_of kv ''team_name'')"
    "text_or_absent (map_of kv ''best_lap_time'')"
    "text_or_absent (map_of kv ''time'')"
    by (simp_all add: well_typed_row_def)
  show ?thesis
    unfolding r render_line_def claimed_line_def
    by (simp add: text_field [OF t(2)] text_field [OF t(3)] text_field [OF t(4)]
                  text_field [OF t(5)] text_field [OF t(6)] position_text [OF t(1)] Let_def)
qed

lemma format_when_total: "\<exists>v. format_when L tz (JObj kv) = Inr v"
  by (auto simp: format_when_def split: json.splits sum.splits option.splits)

text \<open>On a text whose only \<^verbatim>\<open>Z\<close> is its last character, as in an ISO 8601 timestamp,
  replacing every \<^verbatim>\<open>Z\<close> is replacing the trailing one.\<close>

lemma replace_Z_none: "CHR ''Z'' \<notin> set s \<Longrightarrow> replace_Z s = s"
  by (induction s) (auto simp: replace_Z_def)

lemma replace_Z_trailing:
  assumes "CHR ''Z'' \<notin> set (butlast s)"
  shows "replace_Z s = replace_trailing_Z s"
proof (cases "s = []")
  case True
  then show ?thesis by (simp add: replace_Z_def replace_trailing_Z_def)
next
  case False
  have "replace_Z (butlast s @ [last s])
          = replace_Z (butlast s) @ (if last s = CHR ''Z'' then ''+00:00'' else [last s])"
    by (simp add: replace_Z_def)
  with assms False
  have r: "replace_Z s = butlast s @ (if last s = CHR ''Z'' then ''+00:00'' else [last s])"
    by (simp add: replace_Z_none)
  show ?thesis
  proof (cases "last s = CHR ''Z''")
    case True
    with r False show ?thesis by (simp add: replace_trailing_Z_def)
  next
    case no: False
    with r have "replace_Z s = butlast s @ [last s]" by simp
    with False no show ?thesis by (simp add: replace_trailing_Z_def)
  qed
qed

section \<open>The claims\<close>

text \<open>
  C10. When the resolved session's \<^verbatim>\<open>session_key\<close> is falsy (\<^verbatim>\<open>None\<close>, the integer 0, the
  empty string, or any other falsy value), the run ends at the no-key branch: after the
  sessions request it only prints; it asks for no results, posts nothing and writes no
  state.
\<close>

theorem falsy_session_key_ends_run:
  assumes "get_latest_practice_session (sessions_resp w) = Inr sess" and "sess \<noteq> JNull"
    and "dict_get sess ''session_key'' = Inr sk" and "\<not> truthy sk"
  shows "main L cfg w = ([Get_sessions, Print ''Session has no key.''], Inr ())"
proof -
  from assms(1,2) have "truthy sess" using resolved_cases by blast
  moreover obtain state where "load_state (state_file w) = Inr state"
    using load_state_total by blast
  ultimately show ?thesis using assms by (simp add: main_def)
qed

theorem falsy_session_key_ends_run_witness:
  "(\<not> truthy JNull
    \<and> main lib0 cfg0 (world_of None (JList [session_with_key JNull]) (JList [JObj []]))
        = ([Get_sessions, Print ''Session has no key.''], Inr ()))
   \<and> (\<not> truthy (JInt 0)
    \<and> main lib0 cfg0 (world_of None (JList [session_with_key (JInt 0)]) (JList [JObj []]))
        = ([Get_sessions, Print ''Session has no key.''], Inr ()))
   \<and> (\<not> truthy (JStr [])
    \<and> main lib0 cfg0 (world_of None (JList [session_with_key (JStr [])]) (JList [JObj []]))
        = ([Get_sessions, Print ''Session has no key.''], Inr ()))"
proof -
  have run: "main lib0 cfg0 (world_of None (JList [session_with_key k]) (JList [JObj []]))
               = ([Get_sessions, Print ''Session has no key.''], Inr ())"
    if "\<not> truthy k" for k
  proof (rule falsy_session_key_ends_run [where sess = "session_with_key k" and sk = k])
    show "get_latest_practice_session
            (sessions_resp (world_of None (JList [session_with_key k]) (JList [JObj []])))
          = Inr (session_with_key k)"
      by (simp add: world_of_def get_latest_practice_session_def session_with_key_def
                    py_sorted_def sort_key_of_def)
    show "session_with_key k \<noteq> JNull" by (simp add: session_with_key_def)
    show "dict_get (session_with_key k) ''session_key'' = Inr k"
      by (simp add: session_with_key_def)
    show "\<not> truthy k" by (rule that)
  qed
  have "\<not> truthy JNull" "\<not> truthy (JInt 0)" "\<not> truthy (JStr [])" by simp_all
  then show ?thesis using run by blast
qed




text \<open>
  C3. When the resolver returns \<^verbatim>\<open>None\<close>, or the results fetched for the session key that
  passed the gate are empty, the run returns after printing, with no webhook post and no
  write of the state. The state file being as it was, a later run that finds results for
  the same session (and a message that builds, and a webhook) posts them.
\<close>

theorem no_session_or_no_results_is_silent:
  "(get_latest_practice_session (sessions_resp w) = Inr JNull
    \<longrightarrow> main L cfg w = ([Get_sessions, Print ''No practice session found.''], Inr ()))
   \<and> (Get_results sk \<in> set (fst (main L cfg w))
        \<and> get_session_results (results_resp w sk) = Inr []
    \<longrightarrow> main L cfg w
          = ([Get_sessions, Get_results sk, Print ''No results yet; try again next run.''],
             Inr ())
       \<and> (\<forall>(w' :: world) sess rs title lines url.
             state_file w' = state_file w \<and> sessions_resp w' = sessions_resp w
             \<and> get_latest_practice_session (sessions_resp w) = Inr sess
             \<and> get_session_results (results_resp w' sk) = Inr rs \<and> rs \<noteq> []
             \<and> build_message L cfg sess rs = Inr (title, lines)
             \<and> discord_webhook cfg = Some url \<and> url \<noteq> []
           \<longrightarrow> Post_webhook url
                 (''**'' @ title @ ''**'' @ [CHR 0x0A] @ py_join [CHR 0x0A] lines)
                 \<in> set (fst (main L cfg w'))))"
proof (intro conjI impI allI)
  assume "get_latest_practice_session (sessions_resp w) = Inr JNull"
  moreover obtain state where "load_state (state_file w) = Inr state"
    using load_state_total by blast
  ultimately show "main L cfg w = ([Get_sessions, Print ''No practice session found.''], Inr ())"
    by (simp add: main_def)
next
  assume a: "Get_results sk \<in> set (fst (main L cfg w))
               \<and> get_session_results (results_resp w sk) = Inr []"
  then obtain state sess last_key where g: "load_state (state_file w) = Inr state"
      "get_latest_practice_session (sessions_resp w) = Inr sess" "truthy sess"
      "dict_get sess ''session_key'' = Inr sk" "truthy sk"
      "dict_get state ''last_posted_session_key'' = Inr last_key" "\<not> py_eq last_key sk"
    using main_fetch by blast
  with a show "main L cfg w
                 = ([Get_sessions, Get_results sk, Print ''No results yet; try again next run.''],
                    Inr ())"
    by (intro main_gate(2) [where state = state and sess = sess and last_key = last_key]) auto
next
  fix w' :: world and sess rs title lines url
  assume a: "Get_results sk \<in> set (fst (main L cfg w))
               \<and> get_session_results (results_resp w sk) = Inr []"
  assume b: "state_file w' = state_file w \<and> sessions_resp w' = sessions_resp w
             \<and> get_latest_practice_session (sessions_resp w) = Inr sess
             \<and> get_session_results (results_resp w' sk) = Inr rs \<and> rs \<noteq> []
             \<and> build_message L cfg sess rs = Inr (title, lines)
             \<and> discord_webhook cfg = Some url \<and> url \<noteq> []"
  from a obtain state sess' last_key where g: "load_state (state_file w) = Inr state"
      "get_latest_practice_session (sessions_resp w) = Inr sess'" "truthy sess'"
      "dict_get sess' ''session_key'' = Inr sk" "truthy sk"
      "dict_get state ''last_posted_session_key'' = Inr last_key" "\<not> py_eq last_key sk"
    using main_fetch by blast
  with b have [simp]: "sess' = sess" by simp
  from g b have "\<exists>evs r. main L cfg w' =
             ([Get_sessions, Get_results sk,
               Post_webhook url
                 (''**'' @ title @ ''**'' @ [CHR 0x0A] @ py_join [CHR 0x0A] lines)] @ evs, r)"
    by (intro main_gate(3) [where state = state and sess = sess and last_key = last_key
                              and rs = rs]) auto
  then show "Post_webhook url (''**'' @ title @ ''**'' @ [CHR 0x0A] @ py_join [CHR 0x0A] lines)
                 \<in> set (fst (main L cfg w'))"
    by auto
qed

theorem no_session_or_no_results_is_silent_witness:
  "main lib0 cfg0 (world_of None (JList [JObj [(''session_type'', JStr ''Qualifying'')]]) (JList []))
     = ([Get_sessions, Print ''No practice session found.''], Inr ())
   \<and> get_session_results
       (results_resp (world_of None (JList [session_with_key (JInt 9999)]) (JList [])) (JInt 9999))
     = Inr []
   \<and> main lib0 cfg0 (world_of None (JList [session_with_key (JInt 9999)]) (JList []))
     = ([Get_sessions, Get_results (JInt 9999), Print ''No results yet; try again next run.''],
        Inr ())
   \<and> Post_webhook ''https://hook.example''
        (''**'' @ (''Dutch Grand Prix '' @ em_dash
                   @ '' Practice 1 Results (Fri 23 Aug 2024 13:30 CEST)'') @ ''**''
           @ [CHR 0x0A]
           @ py_join [CHR 0x0A] [''1. M. Verstappen '' @ em_dash @ '' Red Bull Racing  1:10.702''])
      \<in> set (fst (main lib0 cfg0
                 (world_of None (JList [session_with_key (JInt 9999)])
                    (JList [result_row (JInt 1) ''Max'' ''Verstappen'']))))"
proof -
  let ?wn = "world_of None (JList [JObj [(''session_type'', JStr ''Qualifying'')]]) (JList [])"
  let ?w = "world_of None (JList [session_with_key (JInt 9999)]) (JList [])"
  let ?w' = "world_of None (JList [session_with_key (JInt 9999)])
               (JList [result_row (JInt 1) ''Max'' ''Verstappen''])"
  let ?title = "''Dutch Grand Prix '' @ em_dash
                  @ '' Practice 1 Results (Fri 23 Aug 2024 13:30 CEST)''"
  let ?lines = "[''1. M. Verstappen '' @ em_dash @ '' Red Bull Racing  1:10.702'']"
  have none: "get_latest_practice_session (sessions_resp ?wn) = Inr JNull"
    by (simp add: world_of_def get_latest_practice_session_def)
  from no_session_or_no_results_is_silent [where w = ?wn and L = lib0 and cfg = cfg0,
      THEN conjunct1, rule_format, OF none]
  have c1: "main lib0 cfg0 ?wn = ([Get_sessions, Print ''No practice session found.''], Inr ())" .
  have empty: "Get_results (JInt 9999) \<in> set (fst (main lib0 cfg0 ?w))
                 \<and> get_session_results (results_resp ?w (JInt 9999)) = Inr []"
    by (simp add: sample_no_results) (simp add: world_of_def get_session_results_def py_sorted_def)
  note t = no_session_or_no_results_is_silent [where w = ?w and L = lib0 and cfg = cfg0
      and sk = "JInt 9999", THEN conjunct2, rule_format, OF empty]
  have later: "state_file ?w' = state_file ?w \<and> sessions_resp ?w' = sessions_resp ?w
      \<and> get_latest_practice_session (sessions_resp ?w) = Inr (session_with_key (JInt 9999))
      \<and> get_session_results (results_resp ?w' (JInt 9999))
          = Inr [result_row (JInt 1) ''Max'' ''Verstappen'']
      \<and> [result_row (JInt 1) ''Max'' ''Verstappen''] \<noteq> []
      \<and> build_message lib0 cfg0 (session_with_key (JInt 9999))
            [result_row (JInt 1) ''Max'' ''Verstappen''] = Inr (?title, ?lines)
      \<and> discord_webhook cfg0 = Some ''https://hook.example'' \<and> ''https://hook.example'' \<noteq> []"
    by (simp add: world_of_def sample_resolved sample_results sample_message)
       (simp add: cfg0_def)
  from t [THEN conjunct1] have c2: "main lib0 cfg0 ?w
     = ([Get_sessions, Get_results (JInt 9999), Print ''No results yet; try again next run.''],
        Inr ())" .
  from t [THEN conjunct2, rule_format, OF later]
  have c3: "Post_webhook ''https://hook.example''
        (''**'' @ ?title @ ''**'' @ [CHR 0x0A] @ py_join [CHR 0x0A] ?lines)
      \<in> set (fst (main lib0 cfg0 ?w'))" .
  from c1 empty c2 c3 show ?thesis by (intro conjI) (rule c1, simp, rule c2, rule c3)
qed

text \<open>
  C9. The state a run writes is the loaded state with \<^verbatim>\<open>last_posted_session_key\<close> set:
  every other key of the loaded dict has the value it had.
\<close>

theorem saved_state_keeps_other_keys:
  assumes "main L cfg w = (tr, r)" and "Write_state s' \<in> set tr"
  shows "\<exists>kv kv'. load_state (state_file w) = Inr (JObj kv) \<and> s' = JObj kv'
           \<and> (\<forall>k. k \<noteq> ''last_posted_session_key'' \<longrightarrow> map_of kv' k = map_of kv k)"
proof -
  from assms obtain sk kv where "load_state (state_file w) = Inr (JObj kv)"
    "s' = JObj (AList.update ''last_posted_session_key'' sk kv)"
    using main_write by blast
  then show ?thesis by (simp add: update_conv')
qed

theorem saved_state_keeps_other_keys_witness:
  "Write_state (JObj [(''last_posted_session_key'', JInt 9999), (''note'', JStr ''keep'')])
     \<in> set (fst (main lib0 cfg0 (sample_world JNull)))
   \<and> load_state (state_file (sample_world JNull))
       = Inr (JObj [(''last_posted_session_key'', JNull), (''note'', JStr ''keep'')])
   \<and> map_of [(''last_posted_session_key'', JInt 9999), (''note'', JStr ''keep'')] ''note''
       = map_of [(''last_posted_session_key'', JNull), (''note'', JStr ''keep'')] ''note''"
proof -
  let ?s = "JObj [(''last_posted_session_key'', JInt 9999), (''note'', JStr ''keep'')]"
  have run: "main lib0 cfg0 (sample_world JNull)
               = (fst (main lib0 cfg0 (sample_world JNull)), snd (main lib0 cfg0 (sample_world JNull)))"
    by (rule surjective_pairing)
  have wr: "Write_state ?s \<in> set (fst (main lib0 cfg0 (sample_world JNull)))"
    by (simp add: sample_run)
  have ld: "load_state (state_file (sample_world JNull))
       = Inr (JObj [(''last_posted_session_key'', JNull), (''note'', JStr ''keep'')])"
    by (simp add: sample_world_def world_of_def load_state_def)
  from saved_state_keeps_other_keys [OF run wr] obtain kv where "\<exists>kv'. load_state (state_file (sample_world JNull)) = Inr (JObj kv) \<and> ?s = JObj kv'
           \<and> (\<forall>k. k \<noteq> ''last_posted_session_key'' \<longrightarrow> map_of kv' k = map_of kv k)" ..
  then obtain kv' where c: "load_state (state_file (sample_world JNull)) = Inr (JObj kv) \<and> ?s = JObj kv'
           \<and> (\<forall>k. k \<noteq> ''last_posted_session_key'' \<longrightarrow> map_of kv' k = map_of kv k)" ..
  note c1 = c [THEN conjunct1] and c2 = c [THEN conjunct2, THEN conjunct1]
    and c3 = c [THEN conjunct2, THEN conjunct2, rule_format]
  from c1 ld have kv: "kv = [(''last_posted_session_key'', JNull), (''note'', JStr ''keep'')]"
    by simp
  from c2 have kv': "kv' = [(''last_posted_session_key'', JInt 9999), (''note'', JStr ''keep'')]"
    by simp
  have "''note'' \<noteq> ''last_posted_session_key''" by simp
  then have "map_of kv' ''note'' = map_of kv ''note''" by (rule c3)
  then have "map_of [(''last_posted_session_key'', JInt 9999), (''note'', JStr ''keep'')] ''note''
       = map_of [(''last_posted_session_key'', JNull), (''note'', JStr ''keep'')] ''note''"
    unfolding kv kv' .
  with wr ld show ?thesis by (intro conjI)
qed

text \<open>
  C7. \<^verbatim>\<open>load_state\<close> is to give a state without a last-posted key whenever the content
  of the file is not a state object. The code does so for content that cannot be read or
  parsed: the default state is loaded and the run posts. It does not for content that is
  JSON but no object: the file \<^verbatim>\<open>[]\<close> is loaded as the empty list, \<^verbatim>\<open>.get\<close> on it raises
  \<^verbatim>\<open>AttributeError\<close>, and the run ends with that exception at the gate, before any post.
\<close>

theorem non_object_state_ends_run:
  "load_state (Some (Inl ValueError)) = Inr (JObj [(''last_posted_session_key'', JNull)])
   \<and> fst (main lib0 cfg0
          (world_of (Some (Inl ValueError)) (JList [session_with_key (JInt 9999)])
             (JList [result_row (JInt 1) ''Max'' ''Verstappen''])))
     = [Get_sessions, Get_results (JInt 9999),
        Post_webhook ''https://hook.example''
          (''**Dutch Grand Prix '' @ em_dash @ '' Practice 1 Results (Fri 23 Aug 2024 13:30 CEST)**''
             @ [CHR 0x0A] @ ''1. M. Verstappen '' @ em_dash @ '' Red Bull Racing  1:10.702''),
        Write_state (JObj [(''last_posted_session_key'', JInt 9999)]),
        Print ''Posted session 9999.'']
   \<and> load_state (Some (Inr (JList []))) = Inr (JList [])
   \<and> dict_get (JList []) ''last_posted_session_key'' = Inl AttributeError
   \<and> main lib0 cfg0
       (world_of (Some (Inr (JList []))) (JList [session_with_key (JInt 9999)])
          (JList [result_row (JInt 1) ''Max'' ''Verstappen'']))
     = ([Get_sessions], Inl AttributeError)"
proof -
  have "main lib0 cfg0
          (world_of (Some (Inl ValueError)) (JList [session_with_key (JInt 9999)])
             (JList [result_row (JInt 1) ''Max'' ''Verstappen'']))
     = ([Get_sessions, Get_results (JInt 9999),
        Post_webhook ''https://hook.example''
          (''**Dutch Grand Prix '' @ em_dash @ '' Practice 1 Results (Fri 23 Aug 2024 13:30 CEST)**''
             @ [CHR 0x0A] @ ''1. M. Verstappen '' @ em_dash @ '' Red Bull Racing  1:10.702''),
        Write_state (JObj [(''last_posted_session_key'', JInt 9999)]),
        Print ''Posted session 9999.''], Inr ())"
    by (simp add: main_def world_of_def load_state_def default_state_def sample_resolved
                  sample_results sample_message post_to_discord_def mark_posted_def
                  save_state_def show_int_def)
       (simp add: cfg0_def py_join_def)
  then show ?thesis
    by (simp add: load_state_def default_state_def main_def world_of_def sample_resolved)
qed

text \<open>
  C5, as amended. \<^verbatim>\<open>format_when\<close> on a session dict never raises. With \<^verbatim>\<open>date_end\<close>
  and \<^verbatim>\<open>date_start\<close> both absent (or \<^verbatim>\<open>null\<close>) it returns the empty string. When the
  chosen timestamp (\<^verbatim>\<open>date_end or date_start\<close>) is a string and the conversion of that
  string with every \<^verbatim>\<open>Z\<close> replaced by \<^verbatim>\<open>+00:00\<close> raises, it returns the string as it was;
  for a string with no \<^verbatim>\<open>Z\<close> before its last character that is the string with a trailing
  \<^verbatim>\<open>Z\<close> replaced.
\<close>

theorem format_when_never_raises:
  "(\<exists>v. format_when L tz (JObj kv) = Inr v)
   \<and> (map_of kv ''date_end'' \<in> {None, Some JNull} \<and> map_of kv ''date_start'' \<in> {None, Some JNull}
        \<longrightarrow> format_when L tz (JObj kv) = Inr (JStr ''''))
   \<and> (dict_get (JObj kv) ''date_end'' = Inr a \<and> dict_get (JObj kv) ''date_start'' = Inr b
        \<and> py_or a b = JStr s
        \<and> (iso_to_local L tz (replace_Z s) = Inl e
            \<or> CHR ''Z'' \<notin> set (butlast s) \<and> iso_to_local L tz (replace_trailing_Z s) = Inl e)
        \<longrightarrow> format_when L tz (JObj kv) = Inr (JStr s))"
proof (intro conjI impI)
  show "\<exists>v. format_when L tz (JObj kv) = Inr v" by (rule format_when_total)
next
  assume "map_of kv ''date_end'' \<in> {None, Some JNull} \<and> map_of kv ''date_start'' \<in> {None, Some JNull}"
  then show "format_when L tz (JObj kv) = Inr (JStr '''')"
    by (auto simp: format_when_def)
next
  assume a: "dict_get (JObj kv) ''date_end'' = Inr a \<and> dict_get (JObj kv) ''date_start'' = Inr b
        \<and> py_or a b = JStr s
        \<and> (iso_to_local L tz (replace_Z s) = Inl e
            \<or> CHR ''Z'' \<notin> set (butlast s) \<and> iso_to_local L tz (replace_trailing_Z s) = Inl e)"
  then have "iso_to_local L tz (replace_Z s) = Inl e"
    by (auto simp: replace_Z_trailing)
  with a show "format_when L tz (JObj kv) = Inr (JStr s)"
    by (auto simp: format_when_def py_or_def split: json.splits sum.splits option.splits if_splits)
qed

theorem format_when_never_raises_witness:
  "format_when lib0 ''Europe/Amsterdam'' (JObj [(''date_end'', JNull)]) = Inr (JStr '''')
   \<and> CHR ''Z'' \<notin> set (butlast ''next SaturdayZ'')
   \<and> iso_to_local lib0 ''Europe/Amsterdam'' (replace_trailing_Z ''next SaturdayZ'') = Inl ValueError
   \<and> format_when lib0 ''Europe/Amsterdam'' (JObj [(''date_start'', JStr ''next SaturdayZ'')])
       = Inr (JStr ''next SaturdayZ'')
   \<and> iso_to_local lib0 ''Europe/Amsterdam'' (replace_Z ''Zandvoort, Friday'') = Inl ValueError
   \<and> format_when lib0 ''Europe/Amsterdam'' (JObj [(''date_end'', JStr ''Zandvoort, Friday'')])
       = Inr (JStr ''Zandvoort, Friday'')"
proof -
  have a: "map_of [(''date_end'', JNull)] ''date_end'' \<in> {None, Some JNull}
           \<and> map_of [(''date_end'', JNull)] ''date_start'' \<in> {None, Some JNull}"
    by simp
  from format_when_never_raises [of lib0 "''Europe/Amsterdam''" "[(''date_end'', JNull)]",
      THEN conjunct2, THEN conjunct1, rule_format, OF a]
  have 1: "format_when lib0 ''Europe/Amsterdam'' (JObj [(''date_end'', JNull)]) = Inr (JStr '''')" .
  have z: "CHR ''Z'' \<notin> set (butlast ''next SaturdayZ'')" by simp
  have p: "iso_to_local lib0 ''Europe/Amsterdam'' (replace_trailing_Z ''next SaturdayZ'')
             = Inl ValueError"
    by (simp add: lib0_def replace_trailing_Z_def)
  have b: "dict_get (JObj [(''date_start'', JStr ''next SaturdayZ'')]) ''date_end'' = Inr JNull
      \<and> dict_get (JObj [(''date_start'', JStr ''next SaturdayZ'')]) ''date_start''
          = Inr (JStr ''next SaturdayZ'')
      \<and> py_or JNull (JStr ''next SaturdayZ'') = JStr ''next SaturdayZ''
      \<and> (iso_to_local lib0 ''Europe/Amsterdam'' (replace_Z ''next SaturdayZ'') = Inl ValueError
          \<or> CHR ''Z'' \<notin> set (butlast ''next SaturdayZ'')
            \<and> iso_to_local lib0 ''Europe/Amsterdam'' (replace_trailing_Z ''next SaturdayZ'')
                = Inl ValueError)"
    using p z by (simp add: py_or_def)
  from format_when_never_raises [where L = lib0 and tz = "''Europe/Amsterdam''"
      and kv = "[(''date_start'', JStr ''next SaturdayZ'')]",
      THEN conjunct2, THEN conjunct2, rule_format, OF b]
  have 2: "format_when lib0 ''Europe/Amsterdam'' (JObj [(''date_start'', JStr ''next SaturdayZ'')])
       = Inr (JStr ''next SaturdayZ'')" .
  have q: "iso_to_local lib0 ''Europe/Amsterdam'' (replace_Z ''Zandvoort, Friday'')
             = Inl ValueError"
    by (simp add: lib0_def replace_Z_def)
  have c: "dict_get (JObj [(''date_end'', JStr ''Zandvoort, Friday'')]) ''date_end''
          = Inr (JStr ''Zandvoort, Friday'')
      \<and> dict_get (JObj [(''date_end'', JStr ''Zandvoort, Friday'')]) ''date_start'' = Inr JNull
      \<and> py_or (JStr ''Zandvoort, Friday'') JNull = JStr ''Zandvoort, Friday''
      \<and> (iso_to_local lib0 ''Europe/Amsterdam'' (replace_Z ''Zandvoort, Friday'') = Inl ValueError
          \<or> CHR ''Z'' \<notin> set (butlast ''Zandvoort, Friday'')
            \<and> iso_to_local lib0 ''Europe/Amsterdam'' (replace_trailing_Z ''Zandvoort, Friday'')
                = Inl ValueError)"
    using q by (simp add: py_or_def)
  from format_when_never_raises [where L = lib0 and tz = "''Europe/Amsterdam''"
      and kv = "[(''date_end'', JStr ''Zandvoort, Friday'')]",
      THEN conjunct2, THEN conjunct2, rule_format, OF c]
  have 3: "format_when lib0 ''Europe/Amsterdam'' (JObj [(''date_end'', JStr ''Zandvoort, Friday'')])
       = Inr (JStr ''Zandvoort, Friday'')" .
  from 1 z p 2 q 3 show ?thesis by (intro conjI)
qed

text \<open>
  C5 as stated fails for a timestamp with a \<^verbatim>\<open>Z\<close> inside: in
  \<^verbatim>\<open>2024-08-23T11:30:00Z:00\<close> there is no trailing \<^verbatim>\<open>Z\<close> to replace and the text does not
  parse, but the code replaces the inner \<^verbatim>\<open>Z\<close>, the result parses, and the formatted time
  is returned instead of the raw string.
\<close>

theorem format_when_inner_Z_counterexample:
  "replace_trailing_Z ''2024-08-23T11:30:00Z:00'' = ''2024-08-23T11:30:00Z:00''
   \<and> iso_to_local lib_offset_seconds ''Europe/Amsterdam''
        (replace_trailing_Z ''2024-08-23T11:30:00Z:00'') = Inl ValueError
   \<and> format_when lib_offset_seconds ''Europe/Amsterdam''
        (JObj [(''date_end'', JStr ''2024-08-23T11:30:00Z:00'')])
       = Inr (JStr ''Fri 23 Aug 2024 13:30 CEST'')
   \<and> format_when lib_offset_seconds ''Europe/Amsterdam''
        (JObj [(''date_end'', JStr ''2024-08-23T11:30:00Z:00'')])
       \<noteq> Inr (JStr ''2024-08-23T11:30:00Z:00'')"
  by (simp add: replace_trailing_Z_def format_when_def lib_offset_seconds_def replace_Z_def)

text \<open>
  C6. For a list of session objects none of which has \<^verbatim>\<open>session_type\<close> equal to the string
  \<^verbatim>\<open>"Practice"\<close> (the comparison is case-sensitive), the resolver returns \<^verbatim>\<open>None\<close>.
\<close>

theorem no_practice_entry_resolves_absent:
  assumes "\<forall>s\<in>set ss. \<exists>kv. s = JObj kv \<and> map_of kv ''session_type'' \<noteq> Some (JStr ''Practice'')"
  shows "get_latest_practice_session (Inr (JList ss)) = Inr JNull"
proof -
  from assms have "practice_of ss = Inr (filter is_practice ss)"
    by (intro practice_of_objects) blast
  moreover from assms have "filter is_practice ss = []"
    by (auto simp: filter_empty_conv is_practice_def split: option.splits)
  ultimately show ?thesis by (simp add: get_latest_practice_session_def)
qed

theorem no_practice_entry_resolves_absent_witness:
  "map_of [(''session_type'', JStr ''practice'')] ''session_type'' \<noteq> Some (JStr ''Practice'')
   \<and> get_latest_practice_session
       (Inr (JList [JObj [(''session_type'', JStr ''practice'')],
                    JObj [(''session_type'', JStr ''Race''), (''session_key'', JInt 7)],
                    JObj [(''session_name'', JStr ''Practice'')]]))
     = Inr JNull"
proof -
  have h: "\<forall>s\<in>set [JObj [(''session_type'', JStr ''practice'')],
                    JObj [(''session_type'', JStr ''Race''), (''session_key'', JInt 7)],
                    JObj [(''session_name'', JStr ''Practice'')]].
             \<exists>kv. s = JObj kv \<and> map_of kv ''session_type'' \<noteq> Some (JStr ''Practice'')"
    by simp
  from no_practice_entry_resolves_absent [OF h]
  have "get_latest_practice_session
       (Inr (JList [JObj [(''session_type'', JStr ''practice'')],
                    JObj [(''session_type'', JStr ''Race''), (''session_key'', JInt 7)],
                    JObj [(''session_name'', JStr ''Practice'')]]))
     = Inr JNull" .
  then show ?thesis by simp
qed

text \<open>
  C2. For a list of session objects with at least one practice entry, whose practice
  entries have timestamps as the data model has them (an end timestamp that is absent or a
  non-empty text, a start timestamp that is absent or a text), the resolver returns the
  practice entry whose sort key (the end timestamp if present, else the start timestamp,
  else the empty string) is greatest in the order of strings; among practice entries with
  that same key it returns the one latest in the list.
\<close>

theorem latest_practice_greatest_key_last_wins:
  assumes "\<forall>s\<in>set ss. \<exists>kv. s = JObj kv"
    and "\<forall>s\<in>set ss. is_practice s \<longrightarrow> well_dated s"
    and "\<exists>s\<in>set ss. is_practice s"
  shows "\<exists>i<length ss. get_latest_practice_session (Inr (JList ss)) = Inr (ss ! i)
           \<and> is_practice (ss ! i)
           \<and> (\<forall>j<length ss. is_practice (ss ! j) \<longrightarrow>
                 claimed_sort_key (ss ! j) \<le> claimed_sort_key (ss ! i)
                 \<and> (claimed_sort_key (ss ! j) = claimed_sort_key (ss ! i) \<longrightarrow> j \<le> i))"
proof -
  let ?m = "Max (claimed_sort_key ` {s \<in> set ss. is_practice s})"
  let ?P = "\<lambda>s. is_practice s \<and> claimed_sort_key s = ?m"
  have fin: "finite (claimed_sort_key ` {s \<in> set ss. is_practice s})" by simp
  from assms(3) have "claimed_sort_key ` {s \<in> set ss. is_practice s} \<noteq> {}" by auto
  with fin have "?m \<in> claimed_sort_key ` {s \<in> set ss. is_practice s}" by (rule Max_in)
  then have "filter ?P ss \<noteq> []" by (auto simp: filter_empty_conv)
  then obtain i where i: "i < length ss" "ss ! i = last (filter ?P ss)" "?P (ss ! i)"
    "\<forall>j<length ss. ?P (ss ! j) \<longrightarrow> j \<le> i"
    using last_filter_index [of ?P ss] by blast
  have le: "claimed_sort_key (ss ! j) \<le> ?m" if "j < length ss" "is_practice (ss ! j)" for j
    using that fin by (intro Max_ge) auto
  from assms i have "get_latest_practice_session (Inr (JList ss)) = Inr (ss ! i)"
    by (simp add: resolve_well_dated)
  with i le show ?thesis
    by (intro exI [of _ i]) auto
qed

theorem latest_practice_greatest_key_last_wins_witness:
  "is_practice (sample_sessions ! 0) \<and> is_practice (sample_sessions ! 2)
   \<and> claimed_sort_key (sample_sessions ! 2) = claimed_sort_key (sample_sessions ! 3)
   \<and> get_latest_practice_session (Inr (JList sample_sessions)) = Inr (sample_sessions ! 3)"
proof -
  let ?ss = sample_sessions
  have len: "length ?ss = 4" by (simp add: sample_sessions_def)
  have pr: "is_practice (?ss ! 0)" "\<not> is_practice (?ss ! 1)" "is_practice (?ss ! 2)"
    "is_practice (?ss ! 3)"
    by (simp_all add: sample_sessions_def is_practice_def)
  have k: "claimed_sort_key (?ss ! 0) = ''2024-08-23''" "claimed_sort_key (?ss ! 2) = ''2024-08-24''"
    "claimed_sort_key (?ss ! 3) = ''2024-08-24''"
    by (simp_all add: sample_sessions_def claimed_sort_key_def)
  have h1: "\<forall>s\<in>set ?ss. \<exists>kv. s = JObj kv" by (simp add: sample_sessions_def)
  have h2: "\<forall>s\<in>set ?ss. is_practice s \<longrightarrow> well_dated s"
    by (simp add: sample_sessions_def well_dated_def)
  have h3: "\<exists>s\<in>set ?ss. is_practice s" by (simp add: sample_sessions_def is_practice_def)
  from latest_practice_greatest_key_last_wins [OF h1 h2 h3] obtain i
    where i: "i < length ?ss"
      and r: "get_latest_practice_session (Inr (JList ?ss)) = Inr (?ss ! i)"
      and p: "is_practice (?ss ! i)"
      and a: "\<forall>j<length ?ss. is_practice (?ss ! j) \<longrightarrow>
                 claimed_sort_key (?ss ! j) \<le> claimed_sort_key (?ss ! i)
                 \<and> (claimed_sort_key (?ss ! j) = claimed_sort_key (?ss ! i) \<longrightarrow> j \<le> i)"
    by blast
  have "3 < length ?ss" by (simp add: len)
  with a pr(4) have b: "claimed_sort_key (?ss ! 3) \<le> claimed_sort_key (?ss ! i)"
    "claimed_sort_key (?ss ! 3) = claimed_sort_key (?ss ! i) \<Longrightarrow> 3 \<le> i"
    by blast+
  from i len consider "i = 0" | "i = 1" | "i = 2" | "i = 3" by linarith
  then have "i = 3"
  proof cases
    case 1
    with b(1) k show ?thesis by simp
  next
    case 2
    with p pr show ?thesis by simp
  next
    case 3
    with b(2) k show ?thesis by simp
  qed
  with r have "get_latest_practice_session (Inr (JList ?ss)) = Inr (?ss ! 3)" by simp
  with pr k show ?thesis by simp
qed

text \<open>
  C4, as amended. For result rows that are objects with an integer or absent position,
  \<^verbatim>\<open>get_session_results\<close> returns the rows it was given, each as it was, in ascending
  order of rank and in input order among equal ranks, where the rank of a row is its
  position, and 9999 when the position is absent, \<^verbatim>\<open>null\<close> or 0. When no row has position
  0 that is the order of the positions with an absent one counted as 9999; positions
  2, 1, \<^verbatim>\<open>None\<close> come out as 1, 2, \<^verbatim>\<open>None\<close>.
\<close>

theorem results_sorted_by_position_rank:
  assumes "\<forall>r\<in>set rows. int_position r"
  shows "\<exists>out. get_session_results (Inr (JList rows)) = Inr out
           \<and> mset out = mset rows
           \<and> sorted (map position_rank out)
           \<and> (\<forall>n. filter (\<lambda>r. position_rank r = n) out = filter (\<lambda>r. position_rank r = n) rows)
           \<and> ((\<forall>r\<in>set rows. claimed_rank r \<noteq> 0) \<longrightarrow> sorted (map claimed_rank out))"
proof -
  let ?out = "sort_key position_rank rows"
  have "py_sorted position_key rows = Inr ?out"
    using assms by (intro py_sorted_ints position_key_int) simp
  then have "get_session_results (Inr (JList rows)) = Inr ?out"
    by (simp add: get_session_results_def)
  moreover have "mset ?out = mset rows" by simp
  moreover have s: "sorted (map position_rank ?out)" by simp
  moreover have "\<forall>n. filter (\<lambda>r. position_rank r = n) ?out
                      = filter (\<lambda>r. position_rank r = n) rows"
    by (simp add: sort_key_stable)
  moreover have "sorted (map claimed_rank ?out)" if "\<forall>r\<in>set rows. claimed_rank r \<noteq> 0"
  proof -
    from that assms have eq: "map claimed_rank ?out = map position_rank ?out"
      by (intro map_cong refl) (simp add: rank_agree)
    from s show ?thesis unfolding eq .
  qed
  ultimately show ?thesis by blast
qed

theorem results_sorted_by_position_rank_witness:
  "get_session_results (Inr (JList sample_rows))
     = Inr [sample_rows ! 1, sample_rows ! 0, sample_rows ! 2]
   \<and> map position_rank [sample_rows ! 1, sample_rows ! 0, sample_rows ! 2] = [1, 2, 9999]
   \<and> map (\<lambda>r. dict_get r ''position'') [sample_rows ! 1, sample_rows ! 0, sample_rows ! 2]
       = [Inr (JInt 1), Inr (JInt 2), Inr JNull]
   \<and> sorted (map position_rank [sample_rows ! 1, sample_rows ! 0, sample_rows ! 2])
   \<and> sorted (map claimed_rank [sample_rows ! 1, sample_rows ! 0, sample_rows ! 2])"
proof -
  let ?out = "[sample_rows ! 1, sample_rows ! 0, sample_rows ! 2]"
  have h: "\<forall>r\<in>set sample_rows. int_position r"
    by (simp add: sample_rows_def int_position_def)
  have nz: "\<forall>r\<in>set sample_rows. claimed_rank r \<noteq> 0"
    by (simp add: sample_rows_def claimed_rank_def)
  from results_sorted_by_position_rank [OF h] obtain out
    where c: "get_session_results (Inr (JList sample_rows)) = Inr out
           \<and> mset out = mset sample_rows
           \<and> sorted (map position_rank out)
           \<and> (\<forall>n. filter (\<lambda>r. position_rank r = n) out
                    = filter (\<lambda>r. position_rank r = n) sample_rows)
           \<and> ((\<forall>r\<in>set sample_rows. claimed_rank r \<noteq> 0) \<longrightarrow> sorted (map claimed_rank out))" ..
  from c [THEN conjunct1] have out: "out = ?out" by (simp add: sample_rows_sorted)
  from c [THEN conjunct2, THEN conjunct2, THEN conjunct1]
  have 1: "sorted (map position_rank ?out)" unfolding out .
  from c [THEN conjunct2, THEN conjunct2, THEN conjunct2, THEN conjunct2, THEN mp, OF nz]
  have 2: "sorted (map claimed_rank ?out)" unfolding out .
  have 3: "map position_rank ?out = [1, 2, 9999]"
    by (simp add: sample_rows_def position_rank_def)
  have 4: "map (\<lambda>r. dict_get r ''position'') ?out = [Inr (JInt 1), Inr (JInt 2), Inr JNull]"
    by (simp add: sample_rows_def)
  from sample_rows_sorted 3 4 1 2 show ?thesis by (intro conjI)
qed

text \<open>
  C4 as stated fails for a row with position 0, which is not absent: \<^verbatim>\<open>0 or 9999\<close> is
  9999, so the row comes after the row with position 1 and the result is not ascending in
  the positions.
\<close>

theorem zero_position_sorts_last_counterexample:
  "get_session_results
     (Inr (JList [JObj [(''position'', JInt 0)], JObj [(''position'', JInt 1)]]))
     = Inr [JObj [(''position'', JInt 1)], JObj [(''position'', JInt 0)]]
   \<and> map claimed_rank [JObj [(''position'', JInt 1)], JObj [(''position'', JInt 0)]] = [1, 0]
   \<and> \<not> sorted (map claimed_rank [JObj [(''position'', JInt 1)], JObj [(''position'', JInt 0)]])"
  by (simp add: get_session_results_def py_sorted_def position_key_def py_or_def claimed_rank_def)

text \<open>
  C8. With \<^verbatim>\<open>TOP_N\<close> not negative, and rows whose position is an integer or absent and
  whose name, team and time fields are texts or absent, the lines of the message are, for
  each of the first \<^verbatim>\<open>TOP_N\<close> rows in order, the position (the text \<^verbatim>\<open>None\<close> when it is
  absent), a period and a space, the first character of the first name with a period, a
  space and the last name, that name part stripped of periods and spaces at both ends, an
  em dash between spaces, the team name, two spaces, and the best lap time or else the
  time; absent fields are empty.
\<close>

theorem message_lines_format:
  assumes "0 \<le> top_n cfg" and "\<forall>r\<in>set results. well_typed_row r"
  shows "\<exists>title. build_message L cfg (JObj skv) results
                   = Inr (title, map claimed_line (take (nat (top_n cfg)) results))"
proof -
  from assms(1) have "py_take (top_n cfg) results = take (nat (top_n cfg)) results"
    by (simp add: py_take_def)
  moreover from assms(2) have "\<forall>r\<in>set (take (nat (top_n cfg)) results). well_typed_row r"
    by (auto dest: in_set_takeD)
  then have "map_exn (render_line L) (take (nat (top_n cfg)) results)
               = Inr (map claimed_line (take (nat (top_n cfg)) results))"
    by (intro map_exn_total) (simp add: render_line_well_typed)
  moreover obtain v where "format_when L (local_tz cfg) (JObj skv) = Inr v"
    using format_when_total by blast
  ultimately show ?thesis
    by (simp add: build_message_def Let_def)
qed

theorem message_lines_format_witness:
  "0 \<le> top_n (cfg0\<lparr>top_n := 2\<rparr>)
   \<and> well_typed_row (result_row (JInt 1) ''Max'' ''Verstappen'')
   \<and> well_typed_row (JObj [(''driver_last_name'', JStr ''Hamilton''), (''time'', JStr ''1:11.0'')])
   \<and> well_typed_row (result_row (JInt 3) ''Lando'' ''Norris'')
   \<and> (\<exists>title.
        build_message lib0 (cfg0\<lparr>top_n := 2\<rparr>) (JObj [(''session_name'', JStr ''Practice 1'')])
          [result_row (JInt 1) ''Max'' ''Verstappen'',
           JObj [(''driver_last_name'', JStr ''Hamilton''), (''time'', JStr ''1:11.0'')],
           result_row (JInt 3) ''Lando'' ''Norris'']
        = Inr (title,
               [''1. M. Verstappen '' @ em_dash @ '' Red Bull Racing  1:10.702'',
                ''None. Hamilton '' @ em_dash @ ''   1:11.0'']))"
proof -
  let ?r1 = "result_row (JInt 1) ''Max'' ''Verstappen''"
  let ?r2 = "JObj [(''driver_last_name'', JStr ''Hamilton''), (''time'', JStr ''1:11.0'')]"
  let ?r3 = "result_row (JInt 3) ''Lando'' ''Norris''"
  let ?cfg = "cfg0\<lparr>top_n := 2\<rparr>"
  have n: "0 \<le> top_n ?cfg" by simp
  have w: "well_typed_row ?r1" "well_typed_row ?r2" "well_typed_row ?r3"
    by (simp_all add: well_typed_row_def result_row_def int_position_def text_or_absent_def)
  then have all: "\<forall>r\<in>set [?r1, ?r2, ?r3]. well_typed_row r" by simp
  have l1: "claimed_line ?r1 = ''1. M. Verstappen '' @ em_dash @ '' Red Bull Racing  1:10.702''"
    by (simp add: claimed_line_def result_row_def text_of_def first_char_def py_strip_def
                  show_int_def is_cont_def)
  have l2: "claimed_line ?r2 = ''None. Hamilton '' @ em_dash @ ''   1:11.0''"
    by (simp add: claimed_line_def text_of_def first_char_def py_strip_def)
  have tk: "map claimed_line (take (nat (top_n ?cfg)) [?r1, ?r2, ?r3])
              = [claimed_line ?r1, claimed_line ?r2]"
    by (simp add: numeral_2_eq_2)
  from message_lines_format [OF n all, of lib0 "[(''session_name'', JStr ''Practice 1'')]"]
  have "\<exists>title. build_message lib0 ?cfg (JObj [(''session_name'', JStr ''Practice 1'')])
                   [?r1, ?r2, ?r3]
                 = Inr (title, map claimed_line (take (nat (top_n ?cfg)) [?r1, ?r2, ?r3]))" .
  then have "\<exists>title. build_message lib0 ?cfg (JObj [(''session_name'', JStr ''Practice 1'')])
                   [?r1, ?r2, ?r3]
                 = Inr (title,
               [''1. M. Verstappen '' @ em_dash @ '' Red Bull Racing  1:10.702'',
                ''None. Hamilton '' @ em_dash @ ''   1:11.0''])"
    unfolding tk l1 l2 .
  with n w show ?thesis by (intro conjI)
qed

end
